theory Spec2Isabelle
  imports Main
begin

section \<open>JavaScript values and strings\<close>

text \<open>
  The search proxy is a JavaScript program. The values that flow through the
  \<^verbatim>\<open>/search\<close> handler are query parameters parsed by the framework, the JSON body
  answered by the translation provider, and the JSON body answered by the search
  backend. They are modelled by one type of JavaScript values. A number only matters
  here through its truthiness (its conversion to a string never throws and holds
  digits, signs and letters only), so an integer stands for it.
\<close>

datatype jsval =
    JUndefined
  | JNull
  | JBool bool
  | JNum int
  | JStr string
  | JArr "jsval list"
  | JObj "(string \<times> jsval) list"

text \<open>JavaScript truthiness, as used by \<^verbatim>\<open>!cached\<close>, \<^verbatim>\<open>!!cached\<close> and \<^verbatim>\<open>cached || spanishKeywords\<close>.\<close>

fun truthy :: "jsval \<Rightarrow> bool" where
  "truthy JUndefined = False"
| "truthy JNull = False"
| "truthy (JBool b) = b"
| "truthy (JNum n) = (n \<noteq> 0)"
| "truthy (JStr s) = (s \<noteq> [])"
| "truthy (JArr xs) = True"
| "truthy (JObj kvs) = True"

text \<open>
  A string is a list of code units; the model covers the code units up to U+00FF
  (Latin-1), one \<^typ>\<open>char\<close> each. Within that range \<^verbatim>\<open>String.prototype.trim\<close>
  strips TAB, LF, VT, FF, CR, SPACE and NBSP from both ends, and
  \<^verbatim>\<open>String.prototype.toLowerCase\<close> maps A-Z and the accented capitals U+00C0-U+00DE
  (except the multiplication sign U+00D7) to the code unit 32 above.
\<close>

definition isWhiteSpace :: "char \<Rightarrow> bool" where
  "isWhiteSpace ch = (of_char ch \<in> {9, 10, 11, 12, 13, 32, 160 :: nat})"

definition trim :: "string \<Rightarrow> string" where
  "trim s = rev (dropWhile isWhiteSpace (rev (dropWhile isWhiteSpace s)))"

definition lowerChar :: "char \<Rightarrow> char" where
  "lowerChar ch =
     (let n = (of_char ch :: nat)
      in if (65 \<le> n \<and> n \<le> 90) \<or> (192 \<le> n \<and> n \<le> 222 \<and> n \<noteq> 215)
         then char_of (n + 32) else ch)"

definition toLowerCase :: "string \<Rightarrow> string" where
  "toLowerCase s = map lowerChar s"

section \<open>Insertion-ordered maps and objects\<close>

text \<open>
  A JavaScript \<^verbatim>\<open>Map\<close> iterates its keys in insertion order; \<^verbatim>\<open>set\<close> on a resident
  key replaces the value where the key stands, \<^verbatim>\<open>set\<close> on a new key appends, and
  \<^verbatim>\<open>delete\<close> removes the key. Plain objects behave the same way under property
  assignment and \<^verbatim>\<open>delete\<close>. Both are association lists in insertion order.
\<close>

fun assoc_set :: "'k \<Rightarrow> 'v \<Rightarrow> ('k \<times> 'v) list \<Rightarrow> ('k \<times> 'v) list" where
  "assoc_set k v [] = [(k, v)]"
| "assoc_set k v (p # ps) = (if fst p = k then (k, v) # ps else p # assoc_set k v ps)"

definition assoc_delete :: "'k \<Rightarrow> ('k \<times> 'v) list \<Rightarrow> ('k \<times> 'v) list" where
  "assoc_delete k ps = filter (\<lambda>p. fst p \<noteq> k) ps"

section \<open>Translation cache\<close>

text \<open>
  \<^verbatim>\<open>translationCache\<close> is a \<^verbatim>\<open>Map\<close> from the lower-cased keywords to
  \<^verbatim>\<open>{ translated, expiresAt }\<close>. \<^verbatim>\<open>CACHE_TTL_MS\<close> and \<^verbatim>\<open>MAX_CACHE_ENTRIES\<close> are read
  from the environment once; \<^verbatim>\<open>parseInt(..) || default\<close> lets them be any integer
  other than zero. \<^verbatim>\<open>Date.now()\<close> is an argument of the two cache functions.
\<close>

record entry =
  translated :: jsval
  expiresAt :: int

type_synonym cache = "(string \<times> entry) list"

record config =
  CACHE_TTL_MS :: int
  MAX_CACHE_ENTRIES :: int

text \<open>
  \<^verbatim>\<open>cacheGet(original)\<close> returns the value and the cache it leaves behind; \<^verbatim>\<open>null\<close>
  is the value of a miss.
\<close>

definition cacheGet :: "cache \<Rightarrow> string \<Rightarrow> int \<Rightarrow> jsval \<times> cache" where
  "cacheGet c original now =
     (let key = toLowerCase original
      in case map_of c key of
           None \<Rightarrow> (JNull, c)
         | Some e \<Rightarrow>
             if now > expiresAt e then (JNull, assoc_delete key c)
             else (translated e, c))"

text \<open>
  \<^verbatim>\<open>cacheSet(original, translated)\<close>. On an empty map \<^verbatim>\<open>keys().next().value\<close> is
  \<^verbatim>\<open>undefined\<close> and deleting it removes nothing.
\<close>

definition cacheSet :: "config \<Rightarrow> cache \<Rightarrow> string \<Rightarrow> jsval \<Rightarrow> int \<Rightarrow> cache" where
  "cacheSet cfg c original tr now =
     (let key = toLowerCase original;
          c1 = (if int (length c) \<ge> MAX_CACHE_ENTRIES cfg
                then (case c of [] \<Rightarrow> c | p # ps \<Rightarrow> assoc_delete (fst p) c)
                else c)
      in assoc_set key \<lparr>translated = tr, expiresAt = now + CACHE_TTL_MS cfg\<rparr> c1)"

text \<open>A sequence of puts \<open>(original, translated, now)\<close>, applied from left to right.\<close>

fun cachePuts :: "config \<Rightarrow> (string \<times> jsval \<times> int) list \<Rightarrow> cache \<Rightarrow> cache" where
  "cachePuts cfg [] c = c"
| "cachePuts cfg ((original, tr, now) # ops) c = cachePuts cfg ops (cacheSet cfg c original tr now)"

section \<open>Translation provider and search backend\<close>

text \<open>
  Reading a property of \<^verbatim>\<open>undefined\<close> or \<^verbatim>\<open>null\<close> throws a TypeError; on every
  other value a property that is not there reads as \<^verbatim>\<open>undefined\<close>. The handler reads
  the properties \<^verbatim>\<open>data\<close>, \<^verbatim>\<open>translations\<close>, \<^verbatim>\<open>0\<close> and \<^verbatim>\<open>translatedText\<close> only, and for
  these the function below is what JavaScript computes: index \<^verbatim>\<open>0\<close> of an array is its
  first element, index \<^verbatim>\<open>0\<close> of a string its first code unit.
\<close>

datatype js_error = TypeError

fun getProp :: "jsval \<Rightarrow> string \<Rightarrow> js_error + jsval" where
  "getProp JUndefined name = Inl TypeError"
| "getProp JNull name = Inl TypeError"
| "getProp (JBool b) name = Inr JUndefined"
| "getProp (JNum n) name = Inr JUndefined"
| "getProp (JStr s) name =
     Inr (if name = ''0'' then (case s of [] \<Rightarrow> JUndefined | ch # cs \<Rightarrow> JStr [ch]) else JUndefined)"
| "getProp (JArr xs) name =
     Inr (if name = ''0'' then (case xs of [] \<Rightarrow> JUndefined | x # ys \<Rightarrow> x) else JUndefined)"
| "getProp (JObj kvs) name =
     Inr (case map_of kvs name of None \<Rightarrow> JUndefined | Some v \<Rightarrow> v)"

text \<open>
  \<^verbatim>\<open>translateResponse.data.data.translations[0].translatedText\<close>, where the argument
  is \<^verbatim>\<open>translateResponse.data\<close>, the body the provider answered.
\<close>

definition translatedText :: "jsval \<Rightarrow> js_error + jsval" where
  "translatedText responseData =
     (case getProp responseData ''data'' of
        Inl err \<Rightarrow> Inl err
      | Inr d \<Rightarrow>
          (case getProp d ''translations'' of
             Inl err \<Rightarrow> Inl err
           | Inr ts \<Rightarrow>
               (case getProp ts ''0'' of
                  Inl err \<Rightarrow> Inl err
                | Inr t \<Rightarrow> getProp t ''translatedText'')))"

text \<open>
  \<^verbatim>\<open>axios.post\<close> to the provider either rejects (timeout after 8 s, network error,
  status outside 2xx) or resolves with a body. \<^verbatim>\<open>axios.get\<close> to the search backend
  either rejects or resolves with a status and a body.
\<close>

datatype provider_reply = ProviderRejected | ProviderResolved jsval

datatype backend_reply = BackendRejected | BackendResolved int jsval

type_synonym params = "(string \<times> jsval) list"

text \<open>
  What one request sees of the world: the provider credential
  \<^verbatim>\<open>process.env.GOOGLE_TRANSLATE_API_KEY\<close> (\<open>None\<close> when unset), the provider as a
  function of the text sent as \<^verbatim>\<open>q\<close>, the backend as a function of the forwarded
  parameters, and the two readings of \<^verbatim>\<open>Date.now()\<close>, in \<^verbatim>\<open>cacheGet\<close> and in
  \<^verbatim>\<open>cacheSet\<close>.
\<close>

record env =
  translateApiKey :: "string option"
  translateProvider :: "string \<Rightarrow> provider_reply"
  searchBackend :: "params \<Rightarrow> backend_reply"
  nowLookup :: int
  nowStore :: int

text \<open>\<^verbatim>\<open>!translateApiKey\<close>: the variable is unset or empty.\<close>

definition apiKeyMissing :: "env \<Rightarrow> bool" where
  "apiKeyMissing e = (case translateApiKey e of None \<Rightarrow> True | Some k \<Rightarrow> k = [])"

section \<open>Conversion to a string and header values\<close>

text \<open>
  A template literal and \<^verbatim>\<open>String(v)\<close> convert a value to a string. For the values
  that come out of \<^verbatim>\<open>JSON.parse\<close> the conversion throws a TypeError in one case
  only: an object with an own property \<^verbatim>\<open>toString\<close>, which is never a function,
  so that neither it nor the inherited \<^verbatim>\<open>valueOf\<close> yields a primitive. An array
  converts by joining the conversions of its elements, and throws when one of them
  does. Every other value converts.
\<close>

fun convertible :: "jsval \<Rightarrow> bool" where
  "convertible JUndefined = True"
| "convertible JNull = True"
| "convertible (JBool b) = True"
| "convertible (JNum n) = True"
| "convertible (JStr s) = True"
| "convertible (JArr xs) = list_all convertible xs"
| "convertible (JObj kvs) = (map_of kvs ''toString'' = None)"

text \<open>
  \<^verbatim>\<open>res.set(name, value)\<close> converts the value with \<^verbatim>\<open>String\<close> (an array element by
  element) and hands it to the HTTP layer, which throws when the text holds a code
  unit other than TAB, U+0020 to U+007E and U+0080 to U+00FF. The texts of
  \<^verbatim>\<open>undefined\<close>, \<^verbatim>\<open>null\<close>, booleans, numbers and plain objects hold none; the text of
  a string is the string, the text of an array is made of the texts of its elements
  and commas.
\<close>

definition validHeaderChar :: "char \<Rightarrow> bool" where
  "validHeaderChar ch =
     (let n = (of_char ch :: nat) in n = 9 \<or> (32 \<le> n \<and> n \<le> 126) \<or> 128 \<le> n)"

fun headerSafe :: "jsval \<Rightarrow> bool" where
  "headerSafe JUndefined = True"
| "headerSafe JNull = True"
| "headerSafe (JBool b) = True"
| "headerSafe (JNum n) = True"
| "headerSafe (JStr s) = list_all validHeaderChar s"
| "headerSafe (JArr xs) = list_all headerSafe xs"
| "headerSafe (JObj kvs) = True"

definition resSetOk :: "jsval \<Rightarrow> bool" where
  "resSetOk v = (convertible v \<and> headerSafe v)"

text \<open>
  The chain \<^verbatim>\<open>res.set(..).set(..)\<close>: the headers are set from left to right; the
  first value that is refused throws and ends the chain. The result is the headers
  set so far and whether the chain came to its end.
\<close>

fun resSetAll :: "(string \<times> jsval) list \<Rightarrow> (string \<times> jsval) list \<times> bool" where
  "resSetAll [] = ([], True)"
| "resSetAll (h # hs) =
     (if resSetOk (snd h) then (h # fst (resSetAll hs), snd (resSetAll hs)) else ([], False))"

section \<open>Resolving the keywords\<close>

text \<open>
  Lines 90 to 118 of the handler: cache lookup, provider call, fallback. The result
  is the three local variables \<^verbatim>\<open>portugueseKeywords\<close>, \<^verbatim>\<open>attempted\<close> and \<^verbatim>\<open>cacheHit\<close>,
  or the error thrown out of these lines, then the cache left behind and the texts
  sent to the provider (none or one).

  On a hit the log line \<^verbatim>\<open>console.log(`Translation cache hit for ..`)\<close> converts the
  cached value to a string outside the inner \<^verbatim>\<open>try\<close>; when that conversion throws,
  the error leaves these lines. The log line after \<^verbatim>\<open>cacheSet\<close> is inside the inner
  \<^verbatim>\<open>try\<close>: when it throws, \<^verbatim>\<open>portugueseKeywords\<close> is already assigned and the cache
  already written, and the \<^verbatim>\<open>catch\<close> only logs, so the outcome is the same as without
  the throw.
\<close>

record outcome =
  portugueseKeywords :: jsval
  attempted :: bool
  cacheHit :: bool

definition resolve ::
  "config \<Rightarrow> env \<Rightarrow> cache \<Rightarrow> string \<Rightarrow> (js_error + outcome) \<times> cache \<times> string list" where
  "resolve cfg e c spanishKeywords =
     (let (cached, c1) = cacheGet c spanishKeywords (nowLookup e)
      in if truthy cached then
           (if convertible cached
            then (Inr \<lparr>portugueseKeywords = cached, attempted = False, cacheHit = True\<rparr>, c1, [])
            else (Inl TypeError, c1, []))
         else if apiKeyMissing e then
           (Inr \<lparr>portugueseKeywords = JStr spanishKeywords, attempted = False, cacheHit = False\<rparr>,
            c1, [])
         else
           (case translateProvider e spanishKeywords of
              ProviderRejected \<Rightarrow>
                (Inr \<lparr>portugueseKeywords = JStr spanishKeywords, attempted = True, cacheHit = False\<rparr>,
                 c1, [spanishKeywords])
            | ProviderResolved responseData \<Rightarrow>
                (case translatedText responseData of
                   Inl err \<Rightarrow>
                     (Inr \<lparr>portugueseKeywords = JStr spanishKeywords, attempted = True,
                           cacheHit = False\<rparr>,
                      c1, [spanishKeywords])
                 | Inr tr \<Rightarrow>
                     (Inr \<lparr>portugueseKeywords = tr, attempted = True, cacheHit = False\<rparr>,
                      cacheSet cfg c1 spanishKeywords tr (nowStore e), [spanishKeywords]))))"

section \<open>The search handler\<close>

text \<open>
  The response of the handler, with the headers as the values passed to
  \<^verbatim>\<open>res.set\<close>, and what the handler did besides: the cache it leaves, the texts it
  sent to the provider and the parameter sets it sent to the backend. Every error
  thrown inside the outer \<^verbatim>\<open>try\<close> (out of the lines above, by a rejected backend call,
  by \<^verbatim>\<open>res.set\<close>) ends in the \<^verbatim>\<open>catch\<close>, which answers status 500 with the fixed
  body on the same response object, so the headers set before the throw stay.
\<close>

record response =
  status :: int
  headers :: "(string \<times> jsval) list"
  body :: jsval

record handled =
  reply :: response
  cacheAfter :: cache
  providerCalls :: "string list"
  forwarded :: "params list"

definition rawKeywords :: "params \<Rightarrow> jsval" where
  "rawKeywords query = (case map_of query ''keywords'' of None \<Rightarrow> JUndefined | Some v \<Rightarrow> v)"

definition hasKeywords :: "params \<Rightarrow> bool" where
  "hasKeywords query =
     (case rawKeywords query of JStr s \<Rightarrow> length (trim s) > 0 | _ \<Rightarrow> False)"

definition internalError :: response where
  "internalError =
     \<lparr>status = 500, headers = [],
      body = JObj [(''error'', JStr ''An internal server error occurred.'')]\<rparr>"

definition diagnosticHeaders :: "string \<Rightarrow> outcome \<Rightarrow> (string \<times> jsval) list" where
  "diagnosticHeaders spanishKeywords out =
     [(''X-Translate-Attempted'', JStr (if attempted out then ''1'' else ''0'')),
      (''X-Translate-Cached'', JStr (if cacheHit out then ''1'' else ''0'')),
      (''X-Source-Keywords'', JStr spanishKeywords),
      (''X-Translated-Keywords'', portugueseKeywords out)]"

text \<open>Lines 130 to 136: the header chain, then status and body of the backend.\<close>

definition decorate :: "string \<Rightarrow> outcome \<Rightarrow> int \<Rightarrow> jsval \<Rightarrow> response" where
  "decorate spanishKeywords out st d =
     (let (hs, done) = resSetAll (diagnosticHeaders spanishKeywords out)
      in if done then \<lparr>status = st, headers = hs, body = d\<rparr>
         else internalError\<lparr>headers := hs\<rparr>)"

definition search_handler :: "config \<Rightarrow> env \<Rightarrow> cache \<Rightarrow> params \<Rightarrow> handled" where
  "search_handler cfg e c query =
     (if \<not> hasKeywords query then
        (let forwardParams = assoc_delete ''keywords'' query
         in \<lparr>reply =
               (case searchBackend e forwardParams of
                  BackendRejected \<Rightarrow> internalError
                | BackendResolved st d \<Rightarrow> \<lparr>status = st, headers = [], body = d\<rparr>),
             cacheAfter = c, providerCalls = [], forwarded = [forwardParams]\<rparr>)
      else
        (let spanishKeywords = trim (case rawKeywords query of JStr s \<Rightarrow> s | _ \<Rightarrow> []);
             (res, c', calls) = resolve cfg e c spanishKeywords
         in case res of
              Inl err \<Rightarrow>
                \<lparr>reply = internalError, cacheAfter = c', providerCalls = calls, forwarded = []\<rparr>
            | Inr out \<Rightarrow>
                (let forwardParams = assoc_set ''keywords'' (portugueseKeywords out) query
                 in \<lparr>reply =
                       (case searchBackend e forwardParams of
                          BackendRejected \<Rightarrow> internalError
                        | BackendResolved st d \<Rightarrow> decorate spanishKeywords out st d),
                     cacheAfter = c', providerCalls = calls, forwarded = [forwardParams]\<rparr>)))"


section \<open>Cache lemmas\<close>

lemma map_of_assoc_set_same: "map_of (assoc_set k v ps) k = Some v"
  by (induction ps) auto

lemma map_of_assoc_set_other: "k' \<noteq> k \<Longrightarrow> map_of (assoc_set k v ps) k' = map_of ps k'"
  by (induction ps) auto

lemma map_of_assoc_delete_same: "map_of (assoc_delete k ps) k = None"
  by (induction ps) (auto simp: assoc_delete_def)

lemma map_of_assoc_delete_other: "k' \<noteq> k \<Longrightarrow> map_of (assoc_delete k ps) k' = map_of ps k'"
  by (induction ps) (auto simp: assoc_delete_def)

lemma map_of_cacheSet_same:
  "map_of (cacheSet cfg c original tr now) (toLowerCase original) =
     Some \<lparr>translated = tr, expiresAt = now + CACHE_TTL_MS cfg\<rparr>"
  by (simp add: cacheSet_def Let_def map_of_assoc_set_same)


lemma length_assoc_delete_le: "length (assoc_delete k ps) \<le> length ps"
  by (simp add: assoc_delete_def)


lemma assoc_delete_absent: "k \<notin> fst ` set ps \<Longrightarrow> assoc_delete k ps = ps"
  by (induction ps) (auto simp: assoc_delete_def)

lemma assoc_set_absent: "k \<notin> fst ` set ps \<Longrightarrow> assoc_set k v ps = ps @ [(k, v)]"
  by (induction ps) auto

lemma keys_assoc_set_present: "k \<in> fst ` set ps \<Longrightarrow> map fst (assoc_set k v ps) = map fst ps"
  by (induction ps) auto

lemma keys_assoc_set: "set (map fst (assoc_set k v ps)) = insert k (set (map fst ps))"
  by (induction ps) auto

lemma distinct_assoc_set: "distinct (map fst ps) \<Longrightarrow> distinct (map fst (assoc_set k v ps))"
proof (induction ps)
  case Nil
  then show ?case by simp
next
  case (Cons p ps)
  have "fst p \<noteq> k \<Longrightarrow> fst p \<notin> set (map fst (assoc_set k v ps))"
    using Cons.prems by (simp only: keys_assoc_set) auto
  with Cons show ?case by auto
qed

lemma distinct_assoc_delete: "distinct (map fst ps) \<Longrightarrow> distinct (map fst (assoc_delete k ps))"
  by (simp add: assoc_delete_def distinct_map_filter)



lemma distinct_cacheSet:
  "distinct (map fst c) \<Longrightarrow> distinct (map fst (cacheSet cfg c original tr now))"
  by (cases c) (simp_all add: cacheSet_def Let_def distinct_assoc_set distinct_assoc_delete)

lemma distinct_cacheGet:
  "distinct (map fst c) \<Longrightarrow> distinct (map fst (snd (cacheGet c original now)))"
  by (simp add: cacheGet_def Let_def distinct_assoc_delete split: option.splits)

lemma distinct_cachePuts:
  "distinct (map fst c) \<Longrightarrow> distinct (map fst (cachePuts cfg ops c))"
  by (induction cfg ops c rule: cachePuts.induct) (simp_all add: distinct_cacheSet)


lemma map_of_keys_eq_None: "k \<notin> fst ` set ps \<Longrightarrow> map_of ps k = None"
  by (simp add: map_of_eq_None_iff)

section \<open>Lemmas on resolving and on the handler\<close>

lemma cacheGet_live:
  assumes "map_of c (toLowerCase x) = Some en" and "now \<le> expiresAt en"
  shows "cacheGet c x now = (translated en, c)"
  using assms by (simp add: cacheGet_def Let_def)

lemma cacheGet_miss:
  assumes "case map_of c (toLowerCase x) of
             None \<Rightarrow> True
           | Some en \<Rightarrow> now > expiresAt en \<or> \<not> truthy (translated en)"
  shows "\<not> truthy (fst (cacheGet c x now))"
  using assms by (auto simp add: cacheGet_def Let_def split: option.splits)

lemma resolve_hit:
  assumes "map_of c (toLowerCase x) = Some en" and "nowLookup e \<le> expiresAt en"
    and "truthy (translated en)" and "convertible (translated en)"
  shows "resolve cfg e c x =
           (Inr \<lparr>portugueseKeywords = translated en, attempted = False, cacheHit = True\<rparr>, c, [])"
  using assms by (simp add: resolve_def cacheGet_def Let_def)

lemma resolve_hit_throws:
  assumes "map_of c (toLowerCase x) = Some en" and "nowLookup e \<le> expiresAt en"
    and "truthy (translated en)" and "\<not> convertible (translated en)"
  shows "resolve cfg e c x = (Inl TypeError, c, [])"
  using assms by (simp add: resolve_def cacheGet_def Let_def)

lemma resolve_fallback:
  assumes "\<not> truthy (fst (cacheGet c x (nowLookup e)))"
    and "apiKeyMissing e \<or> translateProvider e x = ProviderRejected
         \<or> (\<exists>responseData err. translateProvider e x = ProviderResolved responseData
               \<and> translatedText responseData = Inl err)"
  shows "resolve cfg e c x =
           (Inr \<lparr>portugueseKeywords = JStr x, attempted = \<not> apiKeyMissing e, cacheHit = False\<rparr>,
            snd (cacheGet c x (nowLookup e)),
            if apiKeyMissing e then [] else [x])"
  using assms by (auto simp add: resolve_def Let_def split: prod.splits)

lemma resolve_translated:
  assumes "\<not> truthy (fst (cacheGet c x (nowLookup e)))" and "\<not> apiKeyMissing e"
    and "translateProvider e x = ProviderResolved responseData"
    and "translatedText responseData = Inr tr"
  shows "resolve cfg e c x =
           (Inr \<lparr>portugueseKeywords = tr, attempted = True, cacheHit = False\<rparr>,
            cacheSet cfg (snd (cacheGet c x (nowLookup e))) x tr (nowStore e), [x])"
  using assms by (auto simp add: resolve_def Let_def split: prod.splits)

lemma translatedText_wellformed:
  assumes "map_of kvs ''data'' = Some (JObj dkvs)"
    and "map_of dkvs ''translations'' = Some (JArr (JObj tkvs # ts))"
    and "map_of tkvs ''translatedText'' = Some tr"
  shows "translatedText (JObj kvs) = Inr tr"
  using assms by (simp add: translatedText_def)

lemma handler_with_keywords:
  assumes "rawKeywords query = JStr k" and "trim k \<noteq> []"
    and "resolve cfg e c (trim k) = (Inr out, c', calls)"
  shows "search_handler cfg e c query =
           \<lparr>reply =
              (case searchBackend e (assoc_set ''keywords'' (portugueseKeywords out) query) of
                 BackendRejected \<Rightarrow> internalError
               | BackendResolved st d \<Rightarrow> decorate (trim k) out st d),
            cacheAfter = c', providerCalls = calls,
            forwarded = [assoc_set ''keywords'' (portugueseKeywords out) query]\<rparr>"
  using assms by (simp add: search_handler_def hasKeywords_def Let_def)

lemma handler_resolve_throws:
  assumes "rawKeywords query = JStr k" and "trim k \<noteq> []"
    and "resolve cfg e c (trim k) = (Inl err, c', calls)"
  shows "search_handler cfg e c query =
           \<lparr>reply = internalError, cacheAfter = c', providerCalls = calls, forwarded = []\<rparr>"
  using assms by (simp add: search_handler_def hasKeywords_def Let_def)

lemma handler_without_keywords:
  assumes "\<not> hasKeywords query"
  shows "search_handler cfg e c query =
           \<lparr>reply =
              (case searchBackend e (assoc_delete ''keywords'' query) of
                 BackendRejected \<Rightarrow> internalError
               | BackendResolved st d \<Rightarrow> \<lparr>status = st, headers = [], body = d\<rparr>),
            cacheAfter = c, providerCalls = [],
            forwarded = [assoc_delete ''keywords'' query]\<rparr>"
  using assms by (simp add: search_handler_def Let_def)

lemma decorate_safe:
  assumes "list_all validHeaderChar s" and "resSetOk (portugueseKeywords out)"
  shows "decorate s out st d = \<lparr>status = st, headers = diagnosticHeaders s out, body = d\<rparr>"
  using assms by (simp add: decorate_def diagnosticHeaders_def resSetOk_def validHeaderChar_def)

lemma trim_Nil_iff: "trim s = [] \<longleftrightarrow> (\<forall>ch \<in> set s. isWhiteSpace ch)"
proof
  assume "trim s = []"
  then have all: "\<forall>ch \<in> set (dropWhile isWhiteSpace s). isWhiteSpace ch"
    by (simp add: trim_def dropWhile_eq_Nil_conv)
  have "dropWhile isWhiteSpace s = []"
  proof (rule ccontr)
    assume ne: "dropWhile isWhiteSpace s \<noteq> []"
    then have "\<not> isWhiteSpace (hd (dropWhile isWhiteSpace s))" by (rule hd_dropWhile)
    moreover have "hd (dropWhile isWhiteSpace s) \<in> set (dropWhile isWhiteSpace s)"
      using ne by (rule hd_in_set)
    ultimately show False using all by blast
  qed
  then show "\<forall>ch \<in> set s. isWhiteSpace ch" by (simp add: dropWhile_eq_Nil_conv)
next
  assume "\<forall>ch \<in> set s. isWhiteSpace ch"
  then have "dropWhile isWhiteSpace s = []" by (simp add: dropWhile_eq_Nil_conv)
  then show "trim s = []" unfolding trim_def by (simp only: rev.simps dropWhile.simps)
qed

lemma hasKeywords_iff:
  "hasKeywords query \<longleftrightarrow>
     (\<exists>s. map_of query ''keywords'' = Some (JStr s) \<and> \<not> (\<forall>ch \<in> set s. isWhiteSpace ch))"
  by (auto simp add: hasKeywords_def rawKeywords_def trim_Nil_iff split: option.splits jsval.splits)

lemma map_of_assoc_delete_keys: "k \<notin> fst ` set (assoc_delete k ps)"
  by (auto simp: assoc_delete_def)

lemma filter_assoc_set_other:
  "filter (\<lambda>p. fst p \<noteq> k) (assoc_set k v ps) = filter (\<lambda>p. fst p \<noteq> k) ps"
  by (induction ps) auto

lemma filter_assoc_delete_other:
  "filter (\<lambda>p. fst p \<noteq> k) (assoc_delete k ps) = filter (\<lambda>p. fst p \<noteq> k) ps"
  by (simp add: assoc_delete_def)

text \<open>
  Whatever the handler forwards is the query with only the \<open>keywords\<close> field touched,
  and it forwards at most once.
\<close>

lemma forwarded_frame:
  assumes "p \<in> set (forwarded (search_handler cfg e c query))"
  shows "filter (\<lambda>kv. fst kv \<noteq> ''keywords'') p = filter (\<lambda>kv. fst kv \<noteq> ''keywords'') query"
  using assms
  by (auto simp add: search_handler_def Let_def filter_assoc_set_other filter_assoc_delete_other
        split: if_splits prod.splits sum.splits)

lemma forwarded_at_most_once: "length (forwarded (search_handler cfg e c query)) \<le> 1"
  by (simp add: search_handler_def Let_def split: prod.splits sum.splits)

text \<open>Trimming and lower-casing of the texts used in the examples below.\<close>

lemma trim_examples:
  "trim ''perro'' = ''perro''"
  "trim ''gato'' = ''gato''"
  "trim '' perro '' = ''perro''"
  "trim '' Perro '' = ''Perro''"
  by (simp_all add: trim_def isWhiteSpace_def)

lemma lower_examples:
  "toLowerCase ''Perro'' = ''perro''"
  "toLowerCase ''gato'' = ''gato''"
  "toLowerCase ''perro'' = ''perro''"
  "toLowerCase ''Hello'' = ''hello''"
  "toLowerCase ''HELLO'' = ''hello''"
  "toLowerCase ''hello'' = ''hello''"
  "toLowerCase ''  hello  '' = ''  hello  ''"
  "toLowerCase ''a'' = ''a''"
  "toLowerCase ''b'' = ''b''"
  "toLowerCase ''c'' = ''c''"
  "toLowerCase ''d'' = ''d''"
  "toLowerCase ''A'' = ''a''"
  "toLowerCase ''B'' = ''b''"
  "toLowerCase ''C'' = ''c''"
  "toLowerCase ''D'' = ''d''"
  by code_simp+


section \<open>Claims\<close>

text \<open>
  C1. Claimed: on a cache miss, resolving falls back to the original text when no
  credential is configured (\<open>attempted\<close> false) and when the provider call fails by
  timeout, error or malformed response (\<open>attempted\<close> true), and the request is still
  forwarded. The handler does so without a credential, for a rejected call and for a
  response whose reading throws (lemma \<open>resolve_fallback\<close>). A malformed response that
  has \<open>data.translations[0]\<close> but no \<open>translatedText\<close> in it is read without an
  exception: for the keywords \<open>gato\<close> the handler then takes \<^verbatim>\<open>undefined\<close> for the
  translation, stores it in the cache and forwards it under \<open>keywords\<close>, where the
  claim has the original text.
\<close>

theorem fallback_missing_translatedText:
  "resolve \<lparr>CACHE_TTL_MS = 1000, MAX_CACHE_ENTRIES = 500\<rparr>
     \<lparr>translateApiKey = Some ''key'',
      translateProvider = (\<lambda>q. ProviderResolved
         (JObj [(''data'', JObj [(''translations'', JArr [JObj []])])])),
      searchBackend = (\<lambda>p. BackendResolved 200 (JArr [])), nowLookup = 5, nowStore = 6\<rparr>
     [] ''gato''
   = (Inr \<lparr>portugueseKeywords = JUndefined, attempted = True, cacheHit = False\<rparr>,
      [(''gato'', \<lparr>translated = JUndefined, expiresAt = 1006\<rparr>)], [''gato''])
   \<and> forwarded (search_handler \<lparr>CACHE_TTL_MS = 1000, MAX_CACHE_ENTRIES = 500\<rparr>
     \<lparr>translateApiKey = Some ''key'',
      translateProvider = (\<lambda>q. ProviderResolved
         (JObj [(''data'', JObj [(''translations'', JArr [JObj []])])])),
      searchBackend = (\<lambda>p. BackendResolved 200 (JArr [])), nowLookup = 5, nowStore = 6\<rparr>
     [] [(''keywords'', JStr ''gato'')])
   = [[(''keywords'', JUndefined)]]"
  by (simp add: search_handler_def hasKeywords_def rawKeywords_def resolve_def cacheGet_def
        cacheSet_def apiKeyMissing_def translatedText_def Let_def trim_examples lower_examples)

text \<open>
  C2 (amended). For every text whose lower-cased key has an entry that has not
  expired and whose value is truthy (for a string: not empty) and converts to a
  string, resolving returns that value with \<open>cacheHit\<close> true and \<open>attempted\<close> false,
  leaves the cache as it is and sends nothing to the provider; the result does not
  depend on the provider or on the credential.
\<close>

theorem cache_hit_short_circuit:
  assumes "map_of c (toLowerCase x) = Some en" and "nowLookup e \<le> expiresAt en"
    and "truthy (translated en)" and "convertible (translated en)"
  shows "resolve cfg e c x =
           (Inr \<lparr>portugueseKeywords = translated en, attempted = False, cacheHit = True\<rparr>, c, [])
       \<and> resolve cfg (e\<lparr>translateApiKey := key, translateProvider := provider\<rparr>) c x
           = resolve cfg e c x"
proof -
  have "nowLookup (e\<lparr>translateApiKey := key, translateProvider := provider\<rparr>) \<le> expiresAt en"
    using assms(2) by simp
  with assms(1)
  have "resolve cfg (e\<lparr>translateApiKey := key, translateProvider := provider\<rparr>) c x =
           (Inr \<lparr>portugueseKeywords = translated en, attempted = False, cacheHit = True\<rparr>, c, [])"
    using assms(3,4) by (rule resolve_hit)
  moreover have "resolve cfg e c x =
           (Inr \<lparr>portugueseKeywords = translated en, attempted = False, cacheHit = True\<rparr>, c, [])"
    using assms by (rule resolve_hit)
  ultimately show ?thesis by simp
qed

theorem cache_hit_short_circuit_witness:
  "resolve \<lparr>CACHE_TTL_MS = 1000, MAX_CACHE_ENTRIES = 500\<rparr>
     \<lparr>translateApiKey = Some ''key'',
      translateProvider = (\<lambda>q. ProviderRejected),
      searchBackend = (\<lambda>p. BackendResolved 200 (JArr [])), nowLookup = 1006, nowStore = 1007\<rparr>
     [(''perro'', \<lparr>translated = JStr ''cachorro'', expiresAt = 1006\<rparr>)] ''Perro''
   = (Inr \<lparr>portugueseKeywords = JStr ''cachorro'', attempted = False, cacheHit = True\<rparr>,
      [(''perro'', \<lparr>translated = JStr ''cachorro'', expiresAt = 1006\<rparr>)], [])"
  using cache_hit_short_circuit [of
      "[(''perro'', \<lparr>translated = JStr ''cachorro'', expiresAt = 1006\<rparr>)]" "''Perro''"
      "\<lparr>translated = JStr ''cachorro'', expiresAt = 1006\<rparr>"
      "\<lparr>translateApiKey = Some ''key'',
        translateProvider = (\<lambda>q. ProviderRejected),
        searchBackend = (\<lambda>p. BackendResolved 200 (JArr [])), nowLookup = 1006, nowStore = 1007\<rparr>"
      "\<lparr>CACHE_TTL_MS = 1000, MAX_CACHE_ENTRIES = 500\<rparr>"]
  by (simp add: lower_examples)

text \<open>
  The claim as stated fails for a live entry that holds the empty string, stored
  after the provider answered the translated text \<open>""\<close>: the second request is
  treated as a miss and calls the provider again. It also fails for a live entry
  that holds the object \<open>{"toString": null}\<close>: the log line of the hit throws and
  nothing is returned.
\<close>

theorem cache_hit_empty_translation_counterexample:
  "snd (resolve \<lparr>CACHE_TTL_MS = 1000, MAX_CACHE_ENTRIES = 500\<rparr>
     \<lparr>translateApiKey = Some ''key'',
      translateProvider = (\<lambda>q. ProviderResolved
         (JObj [(''data'', JObj [(''translations'', JArr [JObj [(''translatedText'', JStr [])]])])])),
      searchBackend = (\<lambda>p. BackendResolved 200 (JArr [])), nowLookup = 5, nowStore = 6\<rparr>
     [] ''perro'')
   = ([(''perro'', \<lparr>translated = JStr [], expiresAt = 1006\<rparr>)], [''perro''])
   \<and> cacheGet [(''perro'', \<lparr>translated = JStr [], expiresAt = 1006\<rparr>)] ''perro'' 10
   = (JStr [], [(''perro'', \<lparr>translated = JStr [], expiresAt = 1006\<rparr>)])
   \<and> resolve \<lparr>CACHE_TTL_MS = 1000, MAX_CACHE_ENTRIES = 500\<rparr>
     \<lparr>translateApiKey = Some ''key'',
      translateProvider = (\<lambda>q. ProviderResolved
         (JObj [(''data'', JObj [(''translations'', JArr [JObj [(''translatedText'', JStr [])]])])])),
      searchBackend = (\<lambda>p. BackendResolved 200 (JArr [])), nowLookup = 10, nowStore = 11\<rparr>
     [(''perro'', \<lparr>translated = JStr [], expiresAt = 1006\<rparr>)] ''perro''
   = (Inr \<lparr>portugueseKeywords = JStr [], attempted = True, cacheHit = False\<rparr>,
      [(''perro'', \<lparr>translated = JStr [], expiresAt = 1011\<rparr>)], [''perro''])
   \<and> cacheGet [(''perro'', \<lparr>translated = JObj [(''toString'', JNull)], expiresAt = 1006\<rparr>)] ''perro'' 10
   = (JObj [(''toString'', JNull)],
      [(''perro'', \<lparr>translated = JObj [(''toString'', JNull)], expiresAt = 1006\<rparr>)])
   \<and> resolve \<lparr>CACHE_TTL_MS = 1000, MAX_CACHE_ENTRIES = 500\<rparr>
     \<lparr>translateApiKey = Some ''key'',
      translateProvider = (\<lambda>q. ProviderRejected),
      searchBackend = (\<lambda>p. BackendResolved 200 (JArr [])), nowLookup = 10, nowStore = 11\<rparr>
     [(''perro'', \<lparr>translated = JObj [(''toString'', JNull)], expiresAt = 1006\<rparr>)] ''perro''
   = (Inl TypeError,
      [(''perro'', \<lparr>translated = JObj [(''toString'', JNull)], expiresAt = 1006\<rparr>)], [])"
  by (simp add: resolve_def cacheGet_def cacheSet_def apiKeyMissing_def translatedText_def
        Let_def lower_examples)

text \<open>
  C3 (amended). An entry stored by \<open>cacheSet\<close> at time \<open>t0\<close> is returned by
  \<open>cacheGet\<close> of the same text at every time \<open>t\<close> with \<open>t0 \<le> t \<le> t0 + CACHE_TTL_MS\<close>,
  the cache staying as it is; at every time \<open>t > t0 + CACHE_TTL_MS\<close> the get returns
  \<open>null\<close> and leaves a cache from which the key has been deleted, every other key
  being kept.
\<close>

theorem cache_ttl:
  assumes "c' = cacheSet cfg c original tr t0"
  shows "(t0 \<le> t \<and> t \<le> t0 + CACHE_TTL_MS cfg \<longrightarrow> cacheGet c' original t = (tr, c'))
       \<and> (t > t0 + CACHE_TTL_MS cfg \<longrightarrow>
            fst (cacheGet c' original t) = JNull
          \<and> snd (cacheGet c' original t) = assoc_delete (toLowerCase original) c'
          \<and> map_of (snd (cacheGet c' original t)) (toLowerCase original) = None
          \<and> (\<forall>k. k \<noteq> toLowerCase original \<longrightarrow>
                map_of (snd (cacheGet c' original t)) k = map_of c' k))"
  unfolding assms
  by (simp add: cacheGet_def Let_def map_of_cacheSet_same
        map_of_assoc_delete_same map_of_assoc_delete_other)

theorem cache_ttl_witness:
  "cacheGet (cacheSet \<lparr>CACHE_TTL_MS = 1000, MAX_CACHE_ENTRIES = 500\<rparr> [] ''Perro'' (JStr ''cachorro'') 0)
      ''Perro'' 1000
     = (JStr ''cachorro'', [(''perro'', \<lparr>translated = JStr ''cachorro'', expiresAt = 1000\<rparr>)])
   \<and> cacheGet (cacheSet \<lparr>CACHE_TTL_MS = 1000, MAX_CACHE_ENTRIES = 500\<rparr> [] ''Perro'' (JStr ''cachorro'') 0)
      ''Perro'' 1001
     = (JNull, [])"
  using cache_ttl [OF refl, of 0 1000 "\<lparr>CACHE_TTL_MS = 1000, MAX_CACHE_ENTRIES = 500\<rparr>" "[]" "''Perro''" "JStr ''cachorro''"]
        cache_ttl [OF refl, of 0 1001 "\<lparr>CACHE_TTL_MS = 1000, MAX_CACHE_ENTRIES = 500\<rparr>" "[]" "''Perro''" "JStr ''cachorro''"]
  by (simp add: cacheSet_def cacheGet_def assoc_delete_def lower_examples)

theorem cache_ttl_boundary_counterexample:
  "(1000 :: int) \<ge> 0 + CACHE_TTL_MS \<lparr>CACHE_TTL_MS = 1000, MAX_CACHE_ENTRIES = 500\<rparr>
   \<and> fst (cacheGet (cacheSet \<lparr>CACHE_TTL_MS = 1000, MAX_CACHE_ENTRIES = 500\<rparr> [] ''perro'' (JStr ''cachorro'') 0)
        ''perro'' 1000) = JStr ''cachorro''
   \<and> snd (cacheGet (cacheSet \<lparr>CACHE_TTL_MS = 1000, MAX_CACHE_ENTRIES = 500\<rparr> [] ''perro'' (JStr ''cachorro'') 0)
        ''perro'' 1000) = [(''perro'', \<lparr>translated = JStr ''cachorro'', expiresAt = 1000\<rparr>)]"
  by (simp add: cacheSet_def cacheGet_def lower_examples)



text \<open>
  C5 (amended). \<open>cacheGet\<close> and \<open>cacheSet\<close> normalise the key by lower-casing only:
  two texts with the same lower-casing reach the same entry, in a get and in a put.
  Trimming is done by the handler before it resolves the keywords, so every request
  whose keywords, trimmed and lower-cased, are the key of an entry that has not
  expired and whose value is truthy and converts to a string is served from that
  entry: its value is forwarded under \<open>keywords\<close>, the provider is not called and the
  cache is left as it is.
\<close>

theorem cache_key_normalization:
  "(toLowerCase a = toLowerCase b \<longrightarrow>
      cacheGet c a now = cacheGet c b now \<and> cacheSet cfg c a tr now = cacheSet cfg c b tr now)
   \<and> (map_of query ''keywords'' = Some (JStr k) \<and> trim k \<noteq> []
        \<and> map_of c (toLowerCase (trim k)) = Some en
        \<and> nowLookup e \<le> expiresAt en \<and> truthy (translated en) \<and> convertible (translated en) \<longrightarrow>
      forwarded (search_handler cfg e c query) = [assoc_set ''keywords'' (translated en) query]
      \<and> providerCalls (search_handler cfg e c query) = []
      \<and> cacheAfter (search_handler cfg e c query) = c)"
proof (intro conjI impI)
  assume "toLowerCase a = toLowerCase b"
  then show "cacheGet c a now = cacheGet c b now"
    and "cacheSet cfg c a tr now = cacheSet cfg c b tr now"
    by (simp_all add: cacheGet_def cacheSet_def)
next
  assume h: "map_of query ''keywords'' = Some (JStr k) \<and> trim k \<noteq> []
        \<and> map_of c (toLowerCase (trim k)) = Some en
        \<and> nowLookup e \<le> expiresAt en \<and> truthy (translated en) \<and> convertible (translated en)"
  have r: "resolve cfg e c (trim k) =
           (Inr \<lparr>portugueseKeywords = translated en, attempted = False, cacheHit = True\<rparr>, c, [])"
    using h by (intro resolve_hit) simp_all
  have "search_handler cfg e c query =
           \<lparr>reply =
              (case searchBackend e (assoc_set ''keywords''
                  (portugueseKeywords \<lparr>portugueseKeywords = translated en, attempted = False,
                     cacheHit = True\<rparr>) query) of
                 BackendRejected \<Rightarrow> internalError
               | BackendResolved st d \<Rightarrow>
                   decorate (trim k)
                     \<lparr>portugueseKeywords = translated en, attempted = False, cacheHit = True\<rparr> st d),
            cacheAfter = c, providerCalls = [],
            forwarded = [assoc_set ''keywords''
                  (portugueseKeywords \<lparr>portugueseKeywords = translated en, attempted = False,
                     cacheHit = True\<rparr>) query]\<rparr>"
    using h r by (intro handler_with_keywords) (simp_all add: rawKeywords_def)
  then show "forwarded (search_handler cfg e c query) = [assoc_set ''keywords'' (translated en) query]"
    and "providerCalls (search_handler cfg e c query) = []"
    and "cacheAfter (search_handler cfg e c query) = c"
    by simp_all
qed

theorem cache_key_normalization_witness:
  "cacheGet [(''hello'', \<lparr>translated = JStr ''ola'', expiresAt = 1000\<rparr>)] ''Hello'' 5
     = cacheGet [(''hello'', \<lparr>translated = JStr ''ola'', expiresAt = 1000\<rparr>)] ''HELLO'' 5
   \<and> forwarded (search_handler \<lparr>CACHE_TTL_MS = 1000, MAX_CACHE_ENTRIES = 500\<rparr>
        \<lparr>translateApiKey = None, translateProvider = (\<lambda>q. ProviderRejected),
         searchBackend = (\<lambda>p. BackendResolved 200 JNull), nowLookup = 5, nowStore = 6\<rparr>
        [(''hello'', \<lparr>translated = JStr ''ola'', expiresAt = 1000\<rparr>)]
        [(''keywords'', JStr ''  hello  ''), (''page'', JStr ''2'')])
     = [[(''keywords'', JStr ''ola''), (''page'', JStr ''2'')]]
   \<and> forwarded (search_handler \<lparr>CACHE_TTL_MS = 1000, MAX_CACHE_ENTRIES = 500\<rparr>
        \<lparr>translateApiKey = None, translateProvider = (\<lambda>q. ProviderRejected),
         searchBackend = (\<lambda>p. BackendResolved 200 JNull), nowLookup = 5, nowStore = 6\<rparr>
        [(''hello'', \<lparr>translated = JStr ''ola'', expiresAt = 1000\<rparr>)]
        [(''keywords'', JStr ''HELLO''), (''page'', JStr ''2'')])
     = [[(''keywords'', JStr ''ola''), (''page'', JStr ''2'')]]"
proof -
  have t: "trim ''  hello  '' = ''hello''" "trim ''HELLO'' = ''HELLO''"
    by (simp_all add: trim_def isWhiteSpace_def)
  show ?thesis
    using
      cache_key_normalization [of "''Hello''" "''HELLO''"
        "[(''hello'', \<lparr>translated = JStr ''ola'', expiresAt = 1000\<rparr>)]" 5
        "\<lparr>CACHE_TTL_MS = 1000, MAX_CACHE_ENTRIES = 500\<rparr>" "JStr ''ola''"
        "[(''keywords'', JStr ''  hello  ''), (''page'', JStr ''2'')]" "''  hello  ''"
        "\<lparr>translated = JStr ''ola'', expiresAt = 1000\<rparr>"
        "\<lparr>translateApiKey = None, translateProvider = (\<lambda>q. ProviderRejected),
         searchBackend = (\<lambda>p. BackendResolved 200 JNull), nowLookup = 5, nowStore = 6\<rparr>"]
      cache_key_normalization [of "''Hello''" "''HELLO''"
        "[(''hello'', \<lparr>translated = JStr ''ola'', expiresAt = 1000\<rparr>)]" 5
        "\<lparr>CACHE_TTL_MS = 1000, MAX_CACHE_ENTRIES = 500\<rparr>" "JStr ''ola''"
        "[(''keywords'', JStr ''HELLO''), (''page'', JStr ''2'')]" "''HELLO''"
        "\<lparr>translated = JStr ''ola'', expiresAt = 1000\<rparr>"
        "\<lparr>translateApiKey = None, translateProvider = (\<lambda>q. ProviderRejected),
         searchBackend = (\<lambda>p. BackendResolved 200 JNull), nowLookup = 5, nowStore = 6\<rparr>"]
    by (simp add: t lower_examples)
qed

theorem cache_key_trim_counterexample:
  "fst (cacheGet (cacheSet \<lparr>CACHE_TTL_MS = 1000, MAX_CACHE_ENTRIES = 500\<rparr> [] ''Hello'' (JStr ''ola'') 0)
        ''HELLO'' 1) = JStr ''ola''
   \<and> fst (cacheGet (cacheSet \<lparr>CACHE_TTL_MS = 1000, MAX_CACHE_ENTRIES = 500\<rparr> [] ''Hello'' (JStr ''ola'') 0)
        ''  hello  '' 1) = JNull"
  by (simp add: cacheSet_def cacheGet_def lower_examples)

text \<open>
  C6 (amended). A put whose lower-cased key already has an entry in a cache with
  distinct keys stores the new value with expiry \<open>now + CACHE_TTL_MS\<close> under that key.
  While the cache holds fewer than \<open>MAX_CACHE_ENTRIES\<close> entries the entry is
  overwritten where it stands and every other entry is kept. When the cache holds
  \<open>MAX_CACHE_ENTRIES\<close> entries or more, the earliest-inserted entry is deleted before
  the write also for a resident key. If that entry belongs to another key it is
  evicted, and the resident entry is overwritten where it stands among the remaining
  entries, all of which are kept. If it is the entry of the key itself, it is removed
  and the new entry is appended as the latest one, and no other entry is evicted.
\<close>

theorem cache_overwrite:
  assumes "distinct (map fst c)" and "toLowerCase original \<in> fst ` set c"
  shows "map_of (cacheSet cfg c original tr now) (toLowerCase original)
           = Some \<lparr>translated = tr, expiresAt = now + CACHE_TTL_MS cfg\<rparr>
       \<and> (int (length c) < MAX_CACHE_ENTRIES cfg \<longrightarrow>
            cacheSet cfg c original tr now =
              assoc_set (toLowerCase original)
                \<lparr>translated = tr, expiresAt = now + CACHE_TTL_MS cfg\<rparr> c
          \<and> map fst (cacheSet cfg c original tr now) = map fst c
          \<and> (\<forall>k. k \<noteq> toLowerCase original \<longrightarrow>
                map_of (cacheSet cfg c original tr now) k = map_of c k))
       \<and> (int (length c) \<ge> MAX_CACHE_ENTRIES cfg \<and> c = (k0, e0) # rest \<longrightarrow>
            (k0 \<noteq> toLowerCase original \<longrightarrow>
                cacheSet cfg c original tr now =
                  assoc_set (toLowerCase original)
                    \<lparr>translated = tr, expiresAt = now + CACHE_TTL_MS cfg\<rparr> rest
              \<and> map fst (cacheSet cfg c original tr now) = map fst rest
              \<and> map_of (cacheSet cfg c original tr now) k0 = None
              \<and> (\<forall>k. k \<noteq> toLowerCase original \<and> k \<noteq> k0 \<longrightarrow>
                    map_of (cacheSet cfg c original tr now) k = map_of c k))
          \<and> (k0 = toLowerCase original \<longrightarrow>
                cacheSet cfg c original tr now =
                  rest @ [(toLowerCase original,
                           \<lparr>translated = tr, expiresAt = now + CACHE_TTL_MS cfg\<rparr>)]))"
proof (intro conjI impI allI)
  let ?key = "toLowerCase original"
  let ?new = "\<lparr>translated = tr, expiresAt = now + CACHE_TTL_MS cfg\<rparr>"
  let ?c' = "cacheSet cfg c original tr now"
  show "map_of ?c' ?key = Some ?new"
    by (rule map_of_cacheSet_same)
  {
    assume below: "int (length c) < MAX_CACHE_ENTRIES cfg"
    then show eq: "?c' = assoc_set ?key ?new c"
      by (simp add: cacheSet_def Let_def)
    show "map fst ?c' = map fst c"
      unfolding eq using assms(2) by (rule keys_assoc_set_present)
    fix k assume "k \<noteq> ?key"
    then show "map_of ?c' k = map_of c k"
      unfolding eq by (rule map_of_assoc_set_other)
  }
  {
    assume full: "int (length c) \<ge> MAX_CACHE_ENTRIES cfg \<and> c = (k0, e0) # rest"
    then have c: "c = (k0, e0) # rest" by blast
    have ge: "MAX_CACHE_ENTRIES cfg \<le> int (length c)" using full by blast
    have k0_rest: "k0 \<notin> fst ` set rest" using assms(1) unfolding c by force
    have del: "assoc_delete k0 c = rest"
      unfolding c using k0_rest
      by (simp add: assoc_delete_def assoc_delete_absent [unfolded assoc_delete_def])
    have eq: "?c' = assoc_set ?key ?new rest"
      using ge del by (simp add: cacheSet_def Let_def c)
    {
      assume other: "k0 \<noteq> ?key"
      show "?c' = assoc_set ?key ?new rest" by (rule eq)
      have "?key \<in> fst ` set rest" using assms(2) other unfolding c by auto
      then show "map fst ?c' = map fst rest"
        unfolding eq by (rule keys_assoc_set_present)
      have "map_of rest k0 = None" using k0_rest by (rule map_of_keys_eq_None)
      then show "map_of ?c' k0 = None"
        unfolding eq using other by (simp add: map_of_assoc_set_other)
      fix k assume k: "k \<noteq> ?key \<and> k \<noteq> k0"
      then have "map_of (assoc_set ?key ?new rest) k = map_of rest k"
        by (simp add: map_of_assoc_set_other)
      moreover have "map_of c k = map_of rest k"
        unfolding c using k by simp
      ultimately show "map_of ?c' k = map_of c k"
        unfolding eq by simp
    }
    {
      assume same: "k0 = ?key"
      have "?key \<notin> fst ` set rest" using k0_rest unfolding same .
      then have "assoc_set ?key ?new rest = rest @ [(?key, ?new)]"
        by (rule assoc_set_absent)
      then show "?c' = rest @ [(?key, ?new)]"
        unfolding eq .
    }
  }
qed

theorem cache_overwrite_witness:
  "cacheSet \<lparr>CACHE_TTL_MS = 1000, MAX_CACHE_ENTRIES = 3\<rparr>
       [(''a'', \<lparr>translated = JStr ''va'', expiresAt = 1001\<rparr>),
        (''b'', \<lparr>translated = JStr ''vb'', expiresAt = 1002\<rparr>)] ''A'' (JStr ''va2'') 7
     = [(''a'', \<lparr>translated = JStr ''va2'', expiresAt = 1007\<rparr>),
        (''b'', \<lparr>translated = JStr ''vb'', expiresAt = 1002\<rparr>)]
   \<and> cacheSet \<lparr>CACHE_TTL_MS = 1000, MAX_CACHE_ENTRIES = 2\<rparr>
       [(''a'', \<lparr>translated = JStr ''va'', expiresAt = 1001\<rparr>),
        (''b'', \<lparr>translated = JStr ''vb'', expiresAt = 1002\<rparr>)] ''B'' (JStr ''vb2'') 7
     = [(''b'', \<lparr>translated = JStr ''vb2'', expiresAt = 1007\<rparr>)]
   \<and> cacheSet \<lparr>CACHE_TTL_MS = 1000, MAX_CACHE_ENTRIES = 2\<rparr>
       [(''a'', \<lparr>translated = JStr ''va'', expiresAt = 1001\<rparr>),
        (''b'', \<lparr>translated = JStr ''vb'', expiresAt = 1002\<rparr>)] ''A'' (JStr ''va2'') 7
     = [(''b'', \<lparr>translated = JStr ''vb'', expiresAt = 1002\<rparr>),
        (''a'', \<lparr>translated = JStr ''va2'', expiresAt = 1007\<rparr>)]"
  using
    cache_overwrite [of "[(''a'', \<lparr>translated = JStr ''va'', expiresAt = 1001\<rparr>),
        (''b'', \<lparr>translated = JStr ''vb'', expiresAt = 1002\<rparr>)]" "''A''"
       "\<lparr>CACHE_TTL_MS = 1000, MAX_CACHE_ENTRIES = 3\<rparr>" "JStr ''va2''" 7
       "''a''" "\<lparr>translated = JStr ''va'', expiresAt = 1001\<rparr>"
       "[(''b'', \<lparr>translated = JStr ''vb'', expiresAt = 1002\<rparr>)]"]
    cache_overwrite [of "[(''a'', \<lparr>translated = JStr ''va'', expiresAt = 1001\<rparr>),
        (''b'', \<lparr>translated = JStr ''vb'', expiresAt = 1002\<rparr>)]" "''B''"
       "\<lparr>CACHE_TTL_MS = 1000, MAX_CACHE_ENTRIES = 2\<rparr>" "JStr ''vb2''" 7
       "''a''" "\<lparr>translated = JStr ''va'', expiresAt = 1001\<rparr>"
       "[(''b'', \<lparr>translated = JStr ''vb'', expiresAt = 1002\<rparr>)]"]
    cache_overwrite [of "[(''a'', \<lparr>translated = JStr ''va'', expiresAt = 1001\<rparr>),
        (''b'', \<lparr>translated = JStr ''vb'', expiresAt = 1002\<rparr>)]" "''A''"
       "\<lparr>CACHE_TTL_MS = 1000, MAX_CACHE_ENTRIES = 2\<rparr>" "JStr ''va2''" 7
       "''a''" "\<lparr>translated = JStr ''va'', expiresAt = 1001\<rparr>"
       "[(''b'', \<lparr>translated = JStr ''vb'', expiresAt = 1002\<rparr>)]"]
  by (simp add: lower_examples)

theorem cache_overwrite_eviction_counterexample:
  "map_of [(''a'', \<lparr>translated = JStr ''va'', expiresAt = 1001\<rparr>),
           (''b'', \<lparr>translated = JStr ''vb'', expiresAt = 1002\<rparr>)] (toLowerCase ''B'')
     = Some \<lparr>translated = JStr ''vb'', expiresAt = 1002\<rparr>
   \<and> cacheSet \<lparr>CACHE_TTL_MS = 1000, MAX_CACHE_ENTRIES = 2\<rparr>
       [(''a'', \<lparr>translated = JStr ''va'', expiresAt = 1001\<rparr>),
        (''b'', \<lparr>translated = JStr ''vb'', expiresAt = 1002\<rparr>)] ''B'' (JStr ''vb2'') 7
     = [(''b'', \<lparr>translated = JStr ''vb2'', expiresAt = 1007\<rparr>)]
   \<and> fst (cacheGet (cacheSet \<lparr>CACHE_TTL_MS = 1000, MAX_CACHE_ENTRIES = 2\<rparr>
       [(''a'', \<lparr>translated = JStr ''va'', expiresAt = 1001\<rparr>),
        (''b'', \<lparr>translated = JStr ''vb'', expiresAt = 1002\<rparr>)] ''B'' (JStr ''vb2'') 7) ''a'' 8) = JNull"
  by (simp add: cacheSet_def cacheGet_def assoc_delete_def Let_def lower_examples)

text \<open>
  C7. On a miss (no entry under the lower-cased text, or an expired one, or one
  whose value is \<^verbatim>\<open>undefined\<close>, \<^verbatim>\<open>null\<close>, \<^verbatim>\<open>false\<close>, \<^verbatim>\<open>0\<close> or the empty string),
  with a non-empty credential, when the provider resolves with a body
  \<open>{data: {translations: [{translatedText: t, ..}, ..], ..}, ..}\<close> for a string \<open>t\<close>,
  resolving returns \<open>t\<close> with \<open>cacheHit\<close> false and \<open>attempted\<close> true after one
  provider call, and stores \<open>t\<close> under the lower-cased source text with expiry
  \<open>nowStore + CACHE_TTL_MS\<close>; the handler forwards the query with \<open>keywords\<close> set to
  \<open>t\<close>.
\<close>

theorem translate_and_store:
  assumes "case map_of c (toLowerCase x) of
             None \<Rightarrow> True
           | Some en \<Rightarrow>
               nowLookup e > expiresAt en
             \<or> translated en \<in> {JUndefined, JNull, JBool False, JNum 0, JStr []}"
    and "translateApiKey e = Some key" and "key \<noteq> []"
    and "translateProvider e x = ProviderResolved (JObj kvs)"
    and "map_of kvs ''data'' = Some (JObj dkvs)"
    and "map_of dkvs ''translations'' = Some (JArr (JObj tkvs # ts))"
    and "map_of tkvs ''translatedText'' = Some (JStr t)"
  shows "resolve cfg e c x =
           (Inr \<lparr>portugueseKeywords = JStr t, attempted = True, cacheHit = False\<rparr>,
            cacheSet cfg (snd (cacheGet c x (nowLookup e))) x (JStr t) (nowStore e), [x])
       \<and> map_of (fst (snd (resolve cfg e c x))) (toLowerCase x)
           = Some \<lparr>translated = JStr t, expiresAt = nowStore e + CACHE_TTL_MS cfg\<rparr>
       \<and> (map_of query ''keywords'' = Some (JStr k) \<and> trim k = x \<and> x \<noteq> [] \<longrightarrow>
            forwarded (search_handler cfg e c query) = [assoc_set ''keywords'' (JStr t) query]
          \<and> map_of (assoc_set ''keywords'' (JStr t) query) ''keywords'' = Some (JStr t)
          \<and> providerCalls (search_handler cfg e c query) = [x]
          \<and> cacheAfter (search_handler cfg e c query)
               = cacheSet cfg (snd (cacheGet c x (nowLookup e))) x (JStr t) (nowStore e))"
proof -
  have "case map_of c (toLowerCase x) of
             None \<Rightarrow> True
           | Some en \<Rightarrow> nowLookup e > expiresAt en \<or> \<not> truthy (translated en)"
    using assms(1) by (auto split: option.splits)
  then have miss: "\<not> truthy (fst (cacheGet c x (nowLookup e)))"
    by (rule cacheGet_miss)
  have cred: "\<not> apiKeyMissing e"
    using assms(2,3) by (simp add: apiKeyMissing_def)
  have read: "translatedText (JObj kvs) = Inr (JStr t)"
    using assms(5,6,7) by (rule translatedText_wellformed)
  have r: "resolve cfg e c x =
           (Inr \<lparr>portugueseKeywords = JStr t, attempted = True, cacheHit = False\<rparr>,
            cacheSet cfg (snd (cacheGet c x (nowLookup e))) x (JStr t) (nowStore e), [x])"
    using miss cred assms(4) read by (rule resolve_translated)
  have h: "search_handler cfg e c query =
           \<lparr>reply =
              (case searchBackend e (assoc_set ''keywords'' (JStr t) query) of
                 BackendRejected \<Rightarrow> internalError
               | BackendResolved st d \<Rightarrow>
                   decorate (trim k)
                     \<lparr>portugueseKeywords = JStr t, attempted = True, cacheHit = False\<rparr> st d),
            cacheAfter = cacheSet cfg (snd (cacheGet c x (nowLookup e))) x (JStr t) (nowStore e),
            providerCalls = [x],
            forwarded = [assoc_set ''keywords'' (JStr t) query]\<rparr>"
    if "map_of query ''keywords'' = Some (JStr k)" and "trim k = x" and "x \<noteq> []"
    using handler_with_keywords [of query k cfg e c
        "\<lparr>portugueseKeywords = JStr t, attempted = True, cacheHit = False\<rparr>"
        "cacheSet cfg (snd (cacheGet c x (nowLookup e))) x (JStr t) (nowStore e)" "[x]"]
      that r by (simp add: rawKeywords_def)
  show ?thesis
    using r h by (simp add: map_of_cacheSet_same map_of_assoc_set_same)
qed

theorem translate_and_store_witness:
  "resolve \<lparr>CACHE_TTL_MS = 1000, MAX_CACHE_ENTRIES = 500\<rparr>
     \<lparr>translateApiKey = Some ''key'',
      translateProvider = (\<lambda>q. ProviderResolved
         (JObj [(''data'', JObj [(''translations'', JArr [JObj [(''translatedText'', JStr ''cachorro'')]])])])),
      searchBackend = (\<lambda>p. BackendResolved 200 (JArr [])), nowLookup = 5, nowStore = 6\<rparr>
     [] ''Perro''
   = (Inr \<lparr>portugueseKeywords = JStr ''cachorro'', attempted = True, cacheHit = False\<rparr>,
      [(''perro'', \<lparr>translated = JStr ''cachorro'', expiresAt = 1006\<rparr>)], [''Perro''])
   \<and> forwarded (search_handler \<lparr>CACHE_TTL_MS = 1000, MAX_CACHE_ENTRIES = 500\<rparr>
     \<lparr>translateApiKey = Some ''key'',
      translateProvider = (\<lambda>q. ProviderResolved
         (JObj [(''data'', JObj [(''translations'', JArr [JObj [(''translatedText'', JStr ''cachorro'')]])])])),
      searchBackend = (\<lambda>p. BackendResolved 200 (JArr [])), nowLookup = 5, nowStore = 6\<rparr>
     [] [(''keywords'', JStr '' Perro ''), (''page'', JStr ''2'')])
   = [[(''keywords'', JStr ''cachorro''), (''page'', JStr ''2'')]]"
  using translate_and_store [where c = "[]" and x = "''Perro''"
     and e = "\<lparr>translateApiKey = Some ''key'',
      translateProvider = (\<lambda>q. ProviderResolved
         (JObj [(''data'', JObj [(''translations'', JArr [JObj [(''translatedText'', JStr ''cachorro'')]])])])),
      searchBackend = (\<lambda>p. BackendResolved 200 (JArr [])), nowLookup = 5, nowStore = 6\<rparr>"
     and key = "''key''"
     and kvs = "[(''data'', JObj [(''translations'', JArr [JObj [(''translatedText'', JStr ''cachorro'')]])])]"
     and dkvs = "[(''translations'', JArr [JObj [(''translatedText'', JStr ''cachorro'')]])]"
     and tkvs = "[(''translatedText'', JStr ''cachorro'')]" and ts = "[]" and t = "''cachorro''"
     and cfg = "\<lparr>CACHE_TTL_MS = 1000, MAX_CACHE_ENTRIES = 500\<rparr>"
     and query = "[(''keywords'', JStr '' Perro ''), (''page'', JStr ''2'')]" and k = "'' Perro ''"]
  by (simp add: cacheGet_def cacheSet_def Let_def trim_examples lower_examples)

text \<open>
  C8. When the \<open>keywords\<close> parameter is absent, is not a string, or is a string of
  white space only, the handler forwards the query with the \<open>keywords\<close> field removed,
  calls the provider not at all, leaves the cache as it is, and answers what the
  backend answered (the internal error only when the backend call itself fails).
\<close>

theorem no_usable_keywords:
  assumes "map_of query ''keywords'' = None
         \<or> (\<exists>v. map_of query ''keywords'' = Some v \<and> (\<forall>s. v \<noteq> JStr s))
         \<or> (\<exists>s. map_of query ''keywords'' = Some (JStr s) \<and> (\<forall>ch \<in> set s. isWhiteSpace ch))"
  shows "forwarded (search_handler cfg e c query) = [assoc_delete ''keywords'' query]
       \<and> ''keywords'' \<notin> fst ` set (assoc_delete ''keywords'' query)
       \<and> providerCalls (search_handler cfg e c query) = []
       \<and> cacheAfter (search_handler cfg e c query) = c
       \<and> reply (search_handler cfg e c query) =
           (case searchBackend e (assoc_delete ''keywords'' query) of
              BackendRejected \<Rightarrow> internalError
            | BackendResolved st d \<Rightarrow> \<lparr>status = st, headers = [], body = d\<rparr>)"
proof -
  have "\<not> hasKeywords query"
    using assms unfolding hasKeywords_iff by auto
  then have "search_handler cfg e c query =
           \<lparr>reply =
              (case searchBackend e (assoc_delete ''keywords'' query) of
                 BackendRejected \<Rightarrow> internalError
               | BackendResolved st d \<Rightarrow> \<lparr>status = st, headers = [], body = d\<rparr>),
            cacheAfter = c, providerCalls = [],
            forwarded = [assoc_delete ''keywords'' query]\<rparr>"
    by (rule handler_without_keywords)
  then show ?thesis by (simp add: map_of_assoc_delete_keys)
qed

theorem no_usable_keywords_witness:
  "search_handler \<lparr>CACHE_TTL_MS = 1000, MAX_CACHE_ENTRIES = 500\<rparr>
     \<lparr>translateApiKey = Some ''key'', translateProvider = (\<lambda>q. ProviderRejected),
      searchBackend = (\<lambda>p. BackendResolved 200 (JArr [])), nowLookup = 5, nowStore = 6\<rparr>
     [] [(''page'', JStr ''2'')]
   = \<lparr>reply = \<lparr>status = 200, headers = [], body = JArr []\<rparr>, cacheAfter = [],
      providerCalls = [], forwarded = [[(''page'', JStr ''2'')]]\<rparr>
   \<and> forwarded (search_handler \<lparr>CACHE_TTL_MS = 1000, MAX_CACHE_ENTRIES = 500\<rparr>
     \<lparr>translateApiKey = Some ''key'', translateProvider = (\<lambda>q. ProviderRejected),
      searchBackend = (\<lambda>p. BackendResolved 200 (JArr [])), nowLookup = 5, nowStore = 6\<rparr>
     [] [(''keywords'', JStr ''  ''), (''page'', JStr ''2'')])
   = [[(''page'', JStr ''2'')]]
   \<and> forwarded (search_handler \<lparr>CACHE_TTL_MS = 1000, MAX_CACHE_ENTRIES = 500\<rparr>
     \<lparr>translateApiKey = Some ''key'', translateProvider = (\<lambda>q. ProviderRejected),
      searchBackend = (\<lambda>p. BackendResolved 200 (JArr [])), nowLookup = 5, nowStore = 6\<rparr>
     [] [(''keywords'', JArr [JStr ''perro'', JStr ''gato'']), (''page'', JStr ''2'')])
   = [[(''page'', JStr ''2'')]]"
proof -
  let ?cfg = "\<lparr>CACHE_TTL_MS = 1000, MAX_CACHE_ENTRIES = 500\<rparr>"
  let ?e = "\<lparr>translateApiKey = Some ''key'', translateProvider = (\<lambda>q. ProviderRejected),
      searchBackend = (\<lambda>p. BackendResolved 200 (JArr [])), nowLookup = 5, nowStore = 6\<rparr>"
  have a: "search_handler ?cfg ?e [] [(''page'', JStr ''2'')]
     = \<lparr>reply = \<lparr>status = 200, headers = [], body = JArr []\<rparr>, cacheAfter = [],
        providerCalls = [], forwarded = [[(''page'', JStr ''2'')]]\<rparr>"
    using no_usable_keywords [of "[(''page'', JStr ''2'')]" ?cfg ?e "[]"]
    by (simp add: assoc_delete_def)
  have b: "forwarded (search_handler ?cfg ?e [] [(''keywords'', JStr ''  ''), (''page'', JStr ''2'')])
     = [[(''page'', JStr ''2'')]]"
    using no_usable_keywords [of "[(''keywords'', JStr ''  ''), (''page'', JStr ''2'')]" ?cfg ?e "[]"]
    by (simp add: assoc_delete_def isWhiteSpace_def)
  have c: "forwarded (search_handler ?cfg ?e []
        [(''keywords'', JArr [JStr ''perro'', JStr ''gato'']), (''page'', JStr ''2'')])
     = [[(''page'', JStr ''2'')]]"
    using no_usable_keywords [of
        "[(''keywords'', JArr [JStr ''perro'', JStr ''gato'']), (''page'', JStr ''2'')]" ?cfg ?e "[]"]
    by (simp add: assoc_delete_def)
  from a b c show ?thesis by simp
qed

text \<open>
  C9. Claimed: the parameters passed to the backend are the query's parameters with
  the \<open>keywords\<close> field removed (no usable keywords) or replaced by the resolved text,
  translated or fallback, every other parameter unchanged. Every other parameter is
  indeed unchanged (lemma \<open>forwarded_frame\<close>). For the keywords \<open>gato\<close> and a provider
  response that has \<open>data.translations[0]\<close> but no \<open>translatedText\<close> in it, the
  \<open>keywords\<close> field passed to the backend is \<^verbatim>\<open>undefined\<close>, neither a translation nor
  the original text.
\<close>

theorem forwarded_keywords_undefined:
  "hasKeywords [(''keywords'', JStr ''gato''), (''page'', JStr ''2'')]
   \<and> search_handler \<lparr>CACHE_TTL_MS = 1000, MAX_CACHE_ENTRIES = 500\<rparr>
     \<lparr>translateApiKey = Some ''key'',
      translateProvider = (\<lambda>q. ProviderResolved
         (JObj [(''data'', JObj [(''translations'', JArr [JObj []])])])),
      searchBackend = (\<lambda>p. BackendResolved 200 (JArr [])), nowLookup = 5, nowStore = 6\<rparr>
     [] [(''keywords'', JStr ''gato''), (''page'', JStr ''2'')]
   = \<lparr>reply = \<lparr>status = 200,
                 headers = [(''X-Translate-Attempted'', JStr ''1''),
                            (''X-Translate-Cached'', JStr ''0''),
                            (''X-Source-Keywords'', JStr ''gato''),
                            (''X-Translated-Keywords'', JUndefined)],
                 body = JArr []\<rparr>,
      cacheAfter = [(''gato'', \<lparr>translated = JUndefined, expiresAt = 1006\<rparr>)],
      providerCalls = [''gato''],
      forwarded = [[(''keywords'', JUndefined), (''page'', JStr ''2'')]]\<rparr>"
  by (simp add: search_handler_def hasKeywords_def rawKeywords_def resolve_def cacheGet_def
        cacheSet_def apiKeyMissing_def translatedText_def decorate_def diagnosticHeaders_def
        resSetOk_def validHeaderChar_def Let_def trim_examples lower_examples)

text \<open>
  C10. Claimed: the four diagnostic headers are set exactly when the request has
  usable keywords and the backend call resolves. They are set then whenever the
  keywords and the resolved value are accepted as header values (lemma
  \<open>decorate_safe\<close>), and a request without usable keywords gets none. For the usable
  keywords \<open>a\<close>, line feed, \<open>b\<close> the backend call resolves with status 200, the third
  \<^verbatim>\<open>res.set\<close> throws on the line feed, and the handler answers status 500 with the
  first two headers only.
\<close>

theorem headers_control_character:
  "hasKeywords [(''keywords'', JStr [CHR ''a'', CHR 0x0A, CHR ''b''])]
   \<and> search_handler \<lparr>CACHE_TTL_MS = 1000, MAX_CACHE_ENTRIES = 500\<rparr>
     \<lparr>translateApiKey = None, translateProvider = (\<lambda>q. ProviderRejected),
      searchBackend = (\<lambda>p. BackendResolved 200 (JArr [])), nowLookup = 5, nowStore = 6\<rparr>
     [] [(''keywords'', JStr [CHR ''a'', CHR 0x0A, CHR ''b''])]
   = \<lparr>reply = \<lparr>status = 500,
                 headers = [(''X-Translate-Attempted'', JStr ''0''),
                            (''X-Translate-Cached'', JStr ''0'')],
                 body = JObj [(''error'', JStr ''An internal server error occurred.'')]\<rparr>,
      cacheAfter = [], providerCalls = [],
      forwarded = [[(''keywords'', JStr [CHR ''a'', CHR 0x0A, CHR ''b''])]]\<rparr>"
proof -
  have t: "trim [CHR ''a'', CHR 0x0A, CHR ''b''] = [CHR ''a'', CHR 0x0A, CHR ''b'']"
    by (simp add: trim_def isWhiteSpace_def)
  show ?thesis
    by (simp add: search_handler_def hasKeywords_def rawKeywords_def resolve_def cacheGet_def
          apiKeyMissing_def decorate_def diagnosticHeaders_def internalError_def
          resSetOk_def validHeaderChar_def Let_def t)
qed

end
